theory Spec2Isabelle
  imports Complex_Main "HOL-Library.Char_ord" "HOL-Library.List_Lexorder"
begin

section \<open>Python values\<close>

text \<open>
  The loader \<^verbatim>\<open>load_to_duckdb.py\<close> works on the values \<^verbatim>\<open>json.load\<close> returns.
  A float is kept as the exact number its decimal text denotes, or one of the three
  special values; rounding to binary64 is not modelled. A dict is an association list
  in insertion order. Text is a list of characters and the model covers ASCII text:
  beyond ASCII, \<^verbatim>\<open>\d\<close>, \<^verbatim>\<open>int\<close> and \<^verbatim>\<open>float\<close> also accept the decimal digits
  and the white space of other scripts, which the model treats as ordinary characters.
\<close>

datatype pyfloat = Finite rat | PosInf | NegInf | NaN

datatype json =
    JNull
  | JBool bool
  | JInt int
  | JFloat pyfloat
  | JStr string
  | JArr "json list"
  | JObj "(string \<times> json) list"

datatype py_error =
    ValueError
  | TypeError
  | AttributeError
  | OverflowError
  | JSONDecodeError
  | OSError
  | EngineError

text \<open>\<^verbatim>\<open>d.get(key, default)\<close>: an \<^verbatim>\<open>AttributeError\<close> when \<open>d\<close> is not a dict.\<close>

fun dict_get :: "json \<Rightarrow> string \<Rightarrow> json \<Rightarrow> py_error + json" where
  "dict_get (JObj kvs) k dflt = Inr (case map_of kvs k of None \<Rightarrow> dflt | Some v \<Rightarrow> v)"
| "dict_get _ k dflt = Inl AttributeError"

section \<open>Text helpers\<close>

definition is_digit :: "char \<Rightarrow> bool" where
  "is_digit c = (c \<in> set ''0123456789'')"

definition digit_val :: "char \<Rightarrow> nat" where
  "digit_val c = of_char c - 48"

definition digit_char :: "nat \<Rightarrow> char" where
  "digit_char n = ''0123456789'' ! n"

text \<open>\<^verbatim>\<open>int(s)\<close> on a run of decimal digits.\<close>

definition int_of_digits :: "string \<Rightarrow> nat" where
  "int_of_digits s = foldl (\<lambda>acc c. 10 * acc + digit_val c) 0 s"

text \<open>\<^verbatim>\<open>str(n)\<close> of a natural number: its decimal digits, no padding.\<close>

function str_nat :: "nat \<Rightarrow> string" where
  "str_nat n = (if n < 10 then [digit_char n] else str_nat (n div 10) @ [digit_char (n mod 10)])"
  by pat_completeness auto
termination
  by (relation "measure id") auto

declare str_nat.simps [simp del]

text \<open>\<^verbatim>\<open>prefix\<close> and \<^verbatim>\<open>keyword in text\<close> (substring test).\<close>

fun startswith :: "string \<Rightarrow> string \<Rightarrow> bool" where
  "startswith s [] = True"
| "startswith [] (p # ps) = False"
| "startswith (c # cs) (p # ps) = (c = p \<and> startswith cs ps)"

fun py_in :: "string \<Rightarrow> string \<Rightarrow> bool" where
  "py_in k [] = (k = [])"
| "py_in k (c # cs) = (startswith (c # cs) k \<or> py_in k cs)"

section \<open>Regular expressions of the loader\<close>

text \<open>
  Both patterns of the loader are sequences of single-character atoms. \<^verbatim>\<open>re.match\<close>
  anchors at the start; \<^verbatim>\<open>$\<close> (without MULTILINE) holds at the end of the text
  and also just before a newline that ends the text.
\<close>

datatype atom = Digit | Lit char

fun match_atoms :: "atom list \<Rightarrow> string \<Rightarrow> string option" where
  "match_atoms [] s = Some s"
| "match_atoms (a # as) [] = None"
| "match_atoms (Digit # as) (c # cs) = (if is_digit c then match_atoms as cs else None)"
| "match_atoms (Lit x # as) (c # cs) = (if c = x then match_atoms as cs else None)"

definition dollar :: "string \<Rightarrow> bool" where
  "dollar rest = (rest = [] \<or> rest = [CHR 0x0A])"

text \<open>\<^verbatim>\<open>^(\d{2})-(\d{2})-(\d{4}) (\d{2}):(\d{2})$\<close>\<close>

definition datetime_atoms :: "atom list" where
  "datetime_atoms =
     [Digit, Digit, Lit CHR ''-'', Digit, Digit, Lit CHR ''-'', Digit, Digit, Digit, Digit,
      Lit CHR '' '', Digit, Digit, Lit CHR '':'', Digit, Digit]"

definition re_match_datetime :: "string \<Rightarrow> (string \<times> string \<times> string \<times> string \<times> string) option" where
  "re_match_datetime s =
     (case match_atoms datetime_atoms s of
        None \<Rightarrow> None
      | Some rest \<Rightarrow>
          if dollar rest
          then Some (take 2 s, take 2 (drop 3 s), take 4 (drop 6 s), take 2 (drop 11 s),
                     take 2 (drop 14 s))
          else None)"

text \<open>\<^verbatim>\<open>^(\d+)_\<close>: the greedy digit run, then an underscore.\<close>

definition re_match_station :: "string \<Rightarrow> string option" where
  "re_match_station s =
     (let ds = takeWhile is_digit s in
      if ds \<noteq> [] \<and> startswith (dropWhile is_digit s) ''_'' then Some ds else None)"

section \<open>Filename resolver\<close>

definition parse_filename :: "string \<Rightarrow> int option" where
  "parse_filename filename =
     (case re_match_station filename of
        Some ds \<Rightarrow> Some (int (int_of_digits ds))
      | None \<Rightarrow> None)"

section \<open>Datetime normalizer\<close>

text \<open>
  \<^verbatim>\<open>datetime(year, month, day, hour, minute)\<close> of the standard library: a
  \<^verbatim>\<open>ValueError\<close> outside the proleptic Gregorian calendar of years 1 to 9999 or
  outside the clock ranges. The components come from \<^verbatim>\<open>\d\<close> groups, so they are
  natural numbers.
\<close>

record pydatetime =
  dt_year :: nat
  dt_month :: nat
  dt_day :: nat
  dt_hour :: nat
  dt_minute :: nat

definition is_leap :: "nat \<Rightarrow> bool" where
  "is_leap y = (y mod 4 = 0 \<and> (y mod 100 \<noteq> 0 \<or> y mod 400 = 0))"

definition days_in_month :: "nat \<Rightarrow> nat \<Rightarrow> nat" where
  "days_in_month y m =
     (if m = 2 then (if is_leap y then 29 else 28)
      else if m = 4 \<or> m = 6 \<or> m = 9 \<or> m = 11 then 30
      else 31)"

definition valid_date :: "nat \<Rightarrow> nat \<Rightarrow> nat \<Rightarrow> bool" where
  "valid_date y m d =
     (1 \<le> y \<and> y \<le> 9999 \<and> 1 \<le> m \<and> m \<le> 12 \<and> 1 \<le> d \<and> d \<le> days_in_month y m)"

definition py_datetime :: "nat \<Rightarrow> nat \<Rightarrow> nat \<Rightarrow> nat \<Rightarrow> nat \<Rightarrow> py_error + pydatetime" where
  "py_datetime y m d h mi =
     (if valid_date y m d \<and> h \<le> 23 \<and> mi \<le> 59
      then Inr \<lparr>dt_year = y, dt_month = m, dt_day = d, dt_hour = h, dt_minute = mi\<rparr>
      else Inl ValueError)"

text \<open>
  \<^verbatim>\<open>dt + timedelta(days=1)\<close>: the same time on the following calendar day; an
  \<^verbatim>\<open>OverflowError\<close> past 31 December 9999.
\<close>

definition add_one_day :: "pydatetime \<Rightarrow> py_error + pydatetime" where
  "add_one_day dt =
     (if dt_day dt < days_in_month (dt_year dt) (dt_month dt)
      then Inr (dt\<lparr>dt_day := dt_day dt + 1\<rparr>)
      else if dt_month dt < 12
      then Inr (dt\<lparr>dt_month := dt_month dt + 1, dt_day := 1\<rparr>)
      else if dt_year dt < 9999
      then Inr (dt\<lparr>dt_year := dt_year dt + 1, dt_month := 1, dt_day := 1\<rparr>)
      else Inl OverflowError)"

text \<open>
  \<^verbatim>\<open>dt.strftime("%Y-%m-%d %H:%M:%S")\<close>: month, day, hour and minute are
  zero-padded to two digits; the year is the C library's \<^verbatim>\<open>%Y\<close>, which on Linux
  is the decimal year without padding, so four digits from the year 1000 on and fewer
  below. The seconds of a datetime built from five components are zero.
\<close>

definition pad2 :: "nat \<Rightarrow> string" where
  "pad2 n = [digit_char (n div 10 mod 10), digit_char (n mod 10)]"

definition pad4 :: "nat \<Rightarrow> string" where
  "pad4 n = [digit_char (n div 1000 mod 10), digit_char (n div 100 mod 10),
             digit_char (n div 10 mod 10), digit_char (n mod 10)]"

definition year_text :: "nat \<Rightarrow> string" where
  "year_text y = (if y < 1000 then str_nat y else pad4 y)"

definition strftime :: "pydatetime \<Rightarrow> string" where
  "strftime dt =
     year_text (dt_year dt) @ ''-'' @ pad2 (dt_month dt) @ ''-'' @ pad2 (dt_day dt) @ '' '' @
     pad2 (dt_hour dt) @ '':'' @ pad2 (dt_minute dt) @ '':00''"

text \<open>
  \<^verbatim>\<open>normalize_datetime\<close>: every exception inside the \<^verbatim>\<open>try\<close> is caught and turned
  into \<^verbatim>\<open>None\<close>; \<^verbatim>\<open>re.match\<close> on a value that is not text raises \<^verbatim>\<open>TypeError\<close>
  there.
\<close>

definition normalize_datetime_try :: "json \<Rightarrow> py_error + string option" where
  "normalize_datetime_try dt_str =
     (case dt_str of
        JStr s \<Rightarrow>
          (case re_match_datetime s of
             None \<Rightarrow> Inr None
           | Some (day, month, year, hour, minute) \<Rightarrow>
               (let d = int_of_digits day; m = int_of_digits month; y = int_of_digits year;
                    h = int_of_digits hour; mi = int_of_digits minute
                in case (if h = 24
                         then (case py_datetime y m d 0 mi of
                                 Inl e \<Rightarrow> Inl e
                               | Inr dt0 \<Rightarrow> add_one_day dt0)
                         else py_datetime y m d h mi) of
                     Inl e \<Rightarrow> Inl e
                   | Inr dt \<Rightarrow> Inr (Some (strftime dt))))
      | _ \<Rightarrow> Inl TypeError)"

definition normalize_datetime :: "json \<Rightarrow> string option" where
  "normalize_datetime dt_str =
     (case normalize_datetime_try dt_str of Inl e \<Rightarrow> None | Inr r \<Rightarrow> r)"

section \<open>Row classifier\<close>

text \<open>
  \<^verbatim>\<open>str(v)\<close> is the text itself when \<open>v\<close> is text. The rendering of any other
  value (numbers, lists, dicts) is the interpreter's and is taken as the parameter
  \<open>repr\<close>.
\<close>

definition py_str :: "(json \<Rightarrow> string) \<Rightarrow> json \<Rightarrow> string" where
  "py_str repr v = (case v of JStr s \<Rightarrow> s | _ \<Rightarrow> repr v)"

definition summary_keywords :: "string list" where
  "summary_keywords =
     [''Summary'', ''Minimum'', ''MinDate'', ''MinTime'', ''Maximum'', ''MaxDate'', ''MaxTime'',
      ''Avg'', ''Num'', ''DataPrecent'', ''STD'', ''Count'']"

definition is_valid_measurement_row :: "(json \<Rightarrow> string) \<Rightarrow> json \<Rightarrow> py_error + bool" where
  "is_valid_measurement_row repr row =
     (case dict_get row ''datetime'' (JStr []) of
        Inl e \<Rightarrow> Inl e
      | Inr datetime_val \<Rightarrow>
          if list_ex (\<lambda>keyword. py_in keyword (py_str repr datetime_val)) summary_keywords
          then Inr False
          else if re_match_datetime (py_str repr datetime_val) = None then Inr False
          else Inr True)"

section \<open>Value coercion\<close>

text \<open>
  \<^verbatim>\<open>float(text)\<close>: surrounding white space (space, tab, line feed, vertical tab,
  form feed, carriage return) is stripped; then an optional sign and
  either \<^verbatim>\<open>inf\<close>, \<^verbatim>\<open>infinity\<close> or \<^verbatim>\<open>nan\<close> in any case, or a decimal number
  with an optional exponent, where single underscores may separate digits.
\<close>

definition is_space :: "char \<Rightarrow> bool" where
  "is_space c = (c \<in> set [CHR 0x09, CHR 0x0A, CHR 0x0B, CHR 0x0C, CHR 0x0D, CHR '' ''])"

definition strip :: "string \<Rightarrow> string" where
  "strip s = rev (dropWhile is_space (rev (dropWhile is_space s)))"

definition to_lower :: "char \<Rightarrow> char" where
  "to_lower c =
     (case map_of (zip ''ABCDEFGHIJKLMNOPQRSTUVWXYZ'' ''abcdefghijklmnopqrstuvwxyz'') c of
        Some l \<Rightarrow> l
      | None \<Rightarrow> c)"

fun digit_run :: "string \<Rightarrow> string \<times> string" where
  "digit_run [] = ([], [])"
| "digit_run [c] = (if is_digit c then ([c], []) else ([], [c]))"
| "digit_run (c # d # cs) =
     (if is_digit c then (case digit_run (d # cs) of (ds, r) \<Rightarrow> (c # ds, r))
      else if c = CHR ''_'' \<and> is_digit d then (case digit_run cs of (ds, r) \<Rightarrow> (d # ds, r))
      else ([], c # d # cs))"

definition digitpart :: "string \<Rightarrow> (string \<times> string) option" where
  "digitpart s =
     (case s of
        [] \<Rightarrow> None
      | c # cs \<Rightarrow>
          if is_digit c then (case digit_run cs of (ds, r) \<Rightarrow> Some (c # ds, r)) else None)"

definition parse_sign :: "string \<Rightarrow> bool \<times> string" where
  "parse_sign s =
     (case s of
        [] \<Rightarrow> (False, s)
      | c # cs \<Rightarrow>
          if c = CHR ''-'' then (True, cs) else if c = CHR ''+'' then (False, cs) else (False, s))"

definition parse_number :: "string \<Rightarrow> (string \<times> string \<times> string) option" where
  "parse_number s =
     (case s of
        [] \<Rightarrow> None
      | c # cs \<Rightarrow>
          if c = CHR ''.''
          then (case digitpart cs of None \<Rightarrow> None | Some (fs, r) \<Rightarrow> Some ([], fs, r))
          else (case digitpart s of
                  None \<Rightarrow> None
                | Some (ds, r) \<Rightarrow>
                    (case r of
                       [] \<Rightarrow> Some (ds, [], r)
                     | c' # r' \<Rightarrow>
                         if c' = CHR ''.''
                         then (case digitpart r' of
                                 None \<Rightarrow> Some (ds, [], r')
                               | Some (fs, r'') \<Rightarrow> Some (ds, fs, r''))
                         else Some (ds, [], r))))"

definition parse_exponent :: "string \<Rightarrow> (int \<times> string) option" where
  "parse_exponent s =
     (case s of
        [] \<Rightarrow> Some (0, s)
      | c # cs \<Rightarrow>
          if c = CHR ''e'' \<or> c = CHR ''E''
          then (case parse_sign cs of
                  (neg, r) \<Rightarrow>
                    (case digitpart r of
                       None \<Rightarrow> None
                     | Some (es, r') \<Rightarrow>
                         Some (if neg then - int (int_of_digits es) else int (int_of_digits es), r')))
          else Some (0, s))"

definition decimal_value :: "bool \<Rightarrow> string \<Rightarrow> string \<Rightarrow> int \<Rightarrow> rat" where
  "decimal_value neg ds fs e =
     (if neg then - 1 else 1) *
     (of_nat (int_of_digits ds) + of_nat (int_of_digits fs) / 10 ^ length fs) *
     (if 0 \<le> e then 10 ^ nat e else 1 / 10 ^ nat (- e))"

definition float_of_text :: "string \<Rightarrow> pyfloat option" where
  "float_of_text s =
     (case parse_sign (strip s) of
        (neg, body) \<Rightarrow>
          if map to_lower body = ''inf'' \<or> map to_lower body = ''infinity''
          then Some (if neg then NegInf else PosInf)
          else if map to_lower body = ''nan'' then Some NaN
          else (case parse_number body of
                  None \<Rightarrow> None
                | Some (ds, fs, r) \<Rightarrow>
                    (case parse_exponent r of
                       None \<Rightarrow> None
                     | Some (e, r') \<Rightarrow>
                         if r' = [] then Some (Finite (decimal_value neg ds fs e)) else None)))"

text \<open>
  \<^verbatim>\<open>float(value)\<close> on a JSON value: \<^verbatim>\<open>ValueError\<close> for text that is no number,
  \<^verbatim>\<open>TypeError\<close> for \<^verbatim>\<open>None\<close>, lists and dicts, \<^verbatim>\<open>OverflowError\<close> for an integer
  beyond the range of a double.
\<close>

definition py_float :: "json \<Rightarrow> py_error + pyfloat" where
  "py_float v =
     (case v of
        JStr s \<Rightarrow> (case float_of_text s of None \<Rightarrow> Inl ValueError | Some f \<Rightarrow> Inr f)
      | JInt n \<Rightarrow>
          if \<bar>n\<bar> < 2 ^ 1024 - 2 ^ 970 then Inr (Finite (of_int n)) else Inl OverflowError
      | JFloat f \<Rightarrow> Inr f
      | JBool b \<Rightarrow> Inr (Finite (if b then 1 else 0))
      | _ \<Rightarrow> Inl TypeError)"

definition missing_tokens :: "json list" where
  "missing_tokens = [JNull, JStr [], JStr ''-'', JStr ''----'', JStr ''N/A'', JStr ''NaN'']"

text \<open>
  Lines 178 to 185 of \<^verbatim>\<open>parse_json_to_polars\<close>: only \<^verbatim>\<open>ValueError\<close> and
  \<^verbatim>\<open>TypeError\<close> are caught.
\<close>

definition coerce_value :: "json \<Rightarrow> py_error + pyfloat option" where
  "coerce_value v =
     (if v \<in> set missing_tokens then Inr None
      else (case py_float v of
              Inr f \<Rightarrow> Inr (Some f)
            | Inl e \<Rightarrow> if e = ValueError \<or> e = TypeError then Inr None else Inl e))"

section \<open>Record extractor\<close>

record monitor_info =
  mi_code :: string
  mi_name :: json
  mi_unit :: json

record reading =
  r_station_id :: int
  r_monitor_code :: string
  r_timestamp :: string
  r_value :: "pyfloat option"

type_synonym monitors_dict = "(string \<times> monitor_info) list"
type_synonym code_map = "(string \<times> json) list"

definition register_monitor :: "code_map \<Rightarrow> monitors_dict \<Rightarrow> string \<Rightarrow> py_error + monitors_dict" where
  "register_monitor cm monitors_dict monitor_code =
     (if map_of monitors_dict monitor_code \<noteq> None then Inr monitors_dict
      else (case dict_get (case map_of cm monitor_code of None \<Rightarrow> JObj [] | Some i \<Rightarrow> i)
                   ''label'' (JStr monitor_code) of
              Inl e \<Rightarrow> Inl e
            | Inr name \<Rightarrow>
                (case dict_get (case map_of cm monitor_code of None \<Rightarrow> JObj [] | Some i \<Rightarrow> i)
                        ''unit'' (JStr []) of
                   Inl e \<Rightarrow> Inl e
                 | Inr unit \<Rightarrow>
                     Inr (monitors_dict @
                          [(monitor_code,
                            \<lparr>mi_code = monitor_code, mi_name = name, mi_unit = unit\<rparr>)]))))"

fun extract_fields ::
  "code_map \<Rightarrow> int \<Rightarrow> string \<Rightarrow> (string \<times> json) list \<Rightarrow> reading list \<times> monitors_dict \<Rightarrow>
   py_error + reading list \<times> monitors_dict" where
  "extract_fields cm sid ts [] acc = Inr acc"
| "extract_fields cm sid ts ((key, value) # items) (ms, mons) =
     (if startswith key ''S_'' \<and> key \<noteq> ''datetime''
      then (case register_monitor cm mons key of
              Inl e \<Rightarrow> Inl e
            | Inr mons' \<Rightarrow>
                (case coerce_value value of
                   Inl e \<Rightarrow> Inl e
                 | Inr v \<Rightarrow>
                     extract_fields cm sid ts items
                       (ms @ [\<lparr>r_station_id = sid, r_monitor_code = key, r_timestamp = ts,
                               r_value = v\<rparr>], mons')))
      else extract_fields cm sid ts items (ms, mons))"

fun extract_rows ::
  "code_map \<Rightarrow> int \<Rightarrow> json list \<Rightarrow> reading list \<times> monitors_dict \<Rightarrow>
   py_error + reading list \<times> monitors_dict" where
  "extract_rows cm sid [] acc = Inr acc"
| "extract_rows cm sid (row # rows) acc =
     (case dict_get row ''datetime'' (JStr []) of
        Inl e \<Rightarrow> Inl e
      | Inr datetime_str \<Rightarrow>
          (case normalize_datetime datetime_str of
             None \<Rightarrow> extract_rows cm sid rows acc
           | Some timestamp \<Rightarrow>
               if timestamp = [] then extract_rows cm sid rows acc
               else (case row of
                       JObj items \<Rightarrow>
                         (case extract_fields cm sid timestamp items acc of
                            Inl e \<Rightarrow> Inl e
                          | Inr acc' \<Rightarrow> extract_rows cm sid rows acc')
                     | _ \<Rightarrow> Inl AttributeError)))"

fun valid_rows_of :: "(json \<Rightarrow> string) \<Rightarrow> json list \<Rightarrow> py_error + json list" where
  "valid_rows_of repr [] = Inr []"
| "valid_rows_of repr (row # rows) =
     (case is_valid_measurement_row repr row of
        Inl e \<Rightarrow> Inl e
      | Inr ok \<Rightarrow>
          (case valid_rows_of repr rows of
             Inl e \<Rightarrow> Inl e
           | Inr rest \<Rightarrow> Inr (if ok then row # rest else rest)))"

fun find_data_section :: "(string \<times> json) list \<Rightarrow> string list \<Rightarrow> json list option" where
  "find_data_section kvs [] = None"
| "find_data_section kvs (key # keys) =
     (case map_of kvs key of
        Some (JArr xs) \<Rightarrow> Some xs
      | _ \<Rightarrow> find_data_section kvs keys)"

definition locate_rows :: "json \<Rightarrow> json list option" where
  "locate_rows json_data =
     (case json_data of
        JArr xs \<Rightarrow> Some xs
      | JObj kvs \<Rightarrow> find_data_section kvs [''data'', ''Data'', ''records'', ''Records'']
      | _ \<Rightarrow> None)"

text \<open>
  \<^verbatim>\<open>parse_json_to_polars\<close>: the data frame is the list of its rows, the empty frame
  the empty list.
\<close>

definition parse_json_to_polars ::
  "(json \<Rightarrow> string) \<Rightarrow> json \<Rightarrow> code_map \<Rightarrow> int \<Rightarrow> py_error + reading list \<times> monitors_dict" where
  "parse_json_to_polars repr json_data cm station_id =
     (case locate_rows json_data of
        None \<Rightarrow> Inr ([], [])
      | Some rows \<Rightarrow>
          (case valid_rows_of repr rows of
             Inl e \<Rightarrow> Inl e
           | Inr valid_rows \<Rightarrow> extract_rows cm station_id valid_rows ([], [])))"

section \<open>Persistence layer\<close>

text \<open>
  The store of \<^verbatim>\<open>create_database\<close>: three tables, two sequences and the views
  registered on the connection. A sequence is kept as the value \<^verbatim>\<open>nextval\<close> hands out
  next. Bound parameters are stored as they are passed (casts of the engine are not
  modelled), with \<^verbatim>\<open>None\<close> as SQL \<^verbatim>\<open>NULL\<close>. Surrogate identifiers come from the
  sequences only; a clash of a fresh identifier with a stored primary key is not
  modelled. Instants of the two clocks are natural numbers.
\<close>

record station_row =
  st_id :: int
  st_name :: string
  st_created_at :: nat

record monitor_row =
  mon_id :: int
  mon_code :: string
  mon_name :: json
  mon_unit :: json

record staged =
  sg_station_id :: int
  sg_monitor_code :: string
  sg_timestamp :: string
  sg_value :: "pyfloat option"
  sg_report_type :: json
  sg_granularity_minutes :: json
  sg_created_at :: nat

record measurement =
  m_id :: int
  m_station_id :: int
  m_monitor_code :: string
  m_timestamp :: string
  m_value :: "pyfloat option"
  m_report_type :: json
  m_granularity_minutes :: json
  m_created_at :: nat

record db =
  stations :: "station_row list"
  monitors :: "monitor_row list"
  measurements :: "measurement list"
  monitor_seq :: int
  measurement_seq :: int
  views :: "(string \<times> staged list) list"

definition empty_db :: db where
  "empty_db = \<lparr>stations = [], monitors = [], measurements = [], monitor_seq = 1,
               measurement_seq = 1, views = []\<rparr>"


text \<open>
  What the surroundings answer during one call of \<^verbatim>\<open>insert_data_duckdb\<close>: the two
  clocks; whether the engine raises on the \<^verbatim>\<open>INSERT\<close> into measurements, and how
  many values of the sequence it has drawn by then; and, for a statement in which one
  key of the unique index occurs in several rows, which of the rows the engine lets
  take effect.
\<close>

record world =
  py_now :: nat
  db_now :: nat
  insert_raises :: bool
  seq_consumed :: nat
  engine_keeps :: "staged list \<Rightarrow> staged list"

text \<open>\<^verbatim>\<open>INSERT INTO stations ... ON CONFLICT (station_id) DO UPDATE SET station_name\<close>\<close>

definition upsert_station :: "int \<Rightarrow> string \<Rightarrow> nat \<Rightarrow> db \<Rightarrow> db" where
  "upsert_station station_id station_name now conn =
     (if list_ex (\<lambda>r. st_id r = station_id) (stations conn)
      then conn\<lparr>stations :=
             map (\<lambda>r. if st_id r = station_id then r\<lparr>st_name := station_name\<rparr> else r)
                 (stations conn)\<rparr>
      else conn\<lparr>stations := stations conn @
             [\<lparr>st_id = station_id, st_name = station_name, st_created_at = now\<rparr>]\<rparr>)"

text \<open>
  \<^verbatim>\<open>INSERT INTO monitors VALUES (nextval('monitor_seq'), ?, ?, ?) ON CONFLICT
  (monitor_code) DO UPDATE SET monitor_name, unit\<close>: the sequence is read before the
  conflict is seen.
\<close>

definition upsert_monitor :: "db \<Rightarrow> monitor_info \<Rightarrow> db" where
  "upsert_monitor conn minfo =
     (if list_ex (\<lambda>r. mon_code r = mi_code minfo) (monitors conn)
      then conn\<lparr>monitor_seq := monitor_seq conn + 1,
                monitors :=
                  map (\<lambda>r. if mon_code r = mi_code minfo
                           then r\<lparr>mon_name := mi_name minfo, mon_unit := mi_unit minfo\<rparr>
                           else r)
                      (monitors conn)\<rparr>
      else conn\<lparr>monitor_seq := monitor_seq conn + 1,
                monitors := monitors conn @
                  [\<lparr>mon_id = monitor_seq conn, mon_code = mi_code minfo,
                    mon_name = mi_name minfo, mon_unit = mi_unit minfo\<rparr>]\<rparr>)"

text \<open>
  The unique index on (station_id, monitor_code, timestamp, report_type): two rows
  conflict when all four agree; a \<^verbatim>\<open>NULL\<close> report type conflicts with nothing.
\<close>

definition same_key :: "staged \<Rightarrow> measurement \<Rightarrow> bool" where
  "same_key s m =
     (m_station_id m = sg_station_id s \<and> m_monitor_code m = sg_monitor_code s \<and>
      m_timestamp m = sg_timestamp s \<and> m_report_type m = sg_report_type s \<and>
      sg_report_type s \<noteq> JNull)"

definition upsert_measurement :: "db \<Rightarrow> staged \<Rightarrow> db" where
  "upsert_measurement conn s =
     (if list_ex (same_key s) (measurements conn)
      then conn\<lparr>measurement_seq := measurement_seq conn + 1,
                measurements :=
                  map (\<lambda>m. if same_key s m
                           then m\<lparr>m_value := sg_value s,
                                  m_granularity_minutes := sg_granularity_minutes s,
                                  m_created_at := sg_created_at s\<rparr>
                           else m)
                      (measurements conn)\<rparr>
      else conn\<lparr>measurement_seq := measurement_seq conn + 1,
                measurements := measurements conn @
                  [\<lparr>m_id = measurement_seq conn, m_station_id = sg_station_id s,
                    m_monitor_code = sg_monitor_code s, m_timestamp = sg_timestamp s,
                    m_value = sg_value s, m_report_type = sg_report_type s,
                    m_granularity_minutes = sg_granularity_minutes s,
                    m_created_at = sg_created_at s\<rparr>]\<rparr>)"

definition register :: "string \<Rightarrow> staged list \<Rightarrow> db \<Rightarrow> db" where
  "register name rows conn =
     conn\<lparr>views := (name, rows) # filter (\<lambda>v. fst v \<noteq> name) (views conn)\<rparr>"

definition unregister :: "string \<Rightarrow> db \<Rightarrow> db" where
  "unregister name conn = conn\<lparr>views := filter (\<lambda>v. fst v \<noteq> name) (views conn)\<rparr>"

definition registered :: "string \<Rightarrow> db \<Rightarrow> bool" where
  "registered name conn = (map_of (views conn) name \<noteq> None)"

text \<open>
  The key of a staged row, and whether some key that can conflict (its report type is
  not \<^verbatim>\<open>NULL\<close>) occurs in two rows of one statement.
\<close>

definition staged_key :: "staged \<Rightarrow> int \<times> string \<times> string \<times> json" where
  "staged_key s = (sg_station_id s, sg_monitor_code s, sg_timestamp s, sg_report_type s)"

definition repeats_key :: "staged list \<Rightarrow> bool" where
  "repeats_key rows =
     (\<not> distinct (map staged_key (filter (\<lambda>s. sg_report_type s \<noteq> JNull) rows)))"

text \<open>
  \<^verbatim>\<open>INSERT INTO measurements ... SELECT nextval('measurement_seq'), ... FROM
  temp_measurements ON CONFLICT ... DO UPDATE\<close>. When no key repeats within the
  statement, every row of the view is inserted, or updates the one stored row it
  conflicts with, and draws one value of the sequence. When a key repeats, the source
  does not determine the outcome: the engine raises or lets some of the rows take
  effect (\<open>engine_keeps\<close>). A statement that raises changes no table, but the values
  of the sequence it has drawn are spent.
\<close>

definition execute_insert_measurements :: "world \<Rightarrow> db \<Rightarrow> py_error \<times> db + db" where
  "execute_insert_measurements w conn =
     (case map_of (views conn) ''temp_measurements'' of
        None \<Rightarrow> Inl (EngineError, conn)
      | Some rows \<Rightarrow>
          if insert_raises w
          then Inl (EngineError,
                    conn\<lparr>measurement_seq := measurement_seq conn + int (seq_consumed w)\<rparr>)
          else if repeats_key rows
          then Inr ((foldl upsert_measurement conn (engine_keeps w rows))
                      \<lparr>measurement_seq := measurement_seq conn + int (length rows)\<rparr>)
          else Inr (foldl upsert_measurement conn rows))"

definition stage :: "json \<Rightarrow> json \<Rightarrow> nat \<Rightarrow> reading \<Rightarrow> staged" where
  "stage report_type granularity now r =
     \<lparr>sg_station_id = r_station_id r, sg_monitor_code = r_monitor_code r,
      sg_timestamp = r_timestamp r, sg_value = r_value r, sg_report_type = report_type,
      sg_granularity_minutes = granularity, sg_created_at = now\<rparr>"

text \<open>
  \<^verbatim>\<open>insert_data_duckdb\<close>. The \<^verbatim>\<open>except Exception\<close> branch prints and returns: the
  \<^verbatim>\<open>unregister\<close> call stands after the \<^verbatim>\<open>execute\<close> inside the \<^verbatim>\<open>try\<close>. The
  result of \<open>execute_insert_measurements\<close> is the store after the statement, with the
  exception when the statement raised.
\<close>

definition insert_data_duckdb ::
  "db \<Rightarrow> reading list \<Rightarrow> int \<Rightarrow> string \<Rightarrow> monitors_dict \<Rightarrow> json \<Rightarrow> json \<Rightarrow> world \<Rightarrow> db" where
  "insert_data_duckdb conn measurements_df station_id station_name monitors_dict
       report_type granularity w =
     (let c1 = upsert_station station_id station_name (db_now w) conn;
          c2 = foldl upsert_monitor c1 (map snd monitors_dict)
      in if measurements_df = [] then c2
         else (let c3 = register ''temp_measurements''
                          (map (stage report_type granularity (py_now w)) measurements_df) c2
               in case execute_insert_measurements w c3 of
                    Inr c4 \<Rightarrow> unregister ''temp_measurements'' c4
                  | Inl (e, c4) \<Rightarrow> c4))"

section \<open>Ingestion coordinator\<close>

text \<open>\<^verbatim>\<open>Path.stem\<close>: the name without its last suffix.\<close>

definition rfind :: "char \<Rightarrow> string \<Rightarrow> nat option" where
  "rfind c s =
     (if c \<in> set s then Some (length s - 1 - length (takeWhile (\<lambda>x. x \<noteq> c) (rev s)))
      else None)"

definition stem :: "string \<Rightarrow> string" where
  "stem name =
     (case rfind CHR ''.'' name of
        None \<Rightarrow> name
      | Some i \<Rightarrow> if 0 < i \<and> i + 1 < length name then take i name else name)"

text \<open>\<^verbatim>\<open>text.split(sep)\<close> for a separator of one character.\<close>

fun split_on :: "char \<Rightarrow> string \<Rightarrow> string list" where
  "split_on sep [] = [[]]"
| "split_on sep (c # cs) =
     (if c = sep then [] # split_on sep cs
      else (case split_on sep cs of
              [] \<Rightarrow> [[c]]
            | p # ps \<Rightarrow> (c # p) # ps))"

definition str_int :: "int \<Rightarrow> string" where
  "str_int i = (if i < 0 then ''-'' @ str_nat (nat (- i)) else str_nat (nat i))"

text \<open>
  Lines 283 and 284 of \<^verbatim>\<open>process_json_file\<close>. The default label is
  \<^verbatim>\<open>"Estaci\'on <id>"\<close>, its accented letter the two bytes of UTF-8.
\<close>

definition default_station_name :: "int \<Rightarrow> string" where
  "default_station_name station_id =
     ''Estaci'' @ [CHR 0xC3, CHR 0xB3] @ ''n '' @ str_int station_id"

definition station_name_of :: "string \<Rightarrow> int \<Rightarrow> string" where
  "station_name_of filename station_id =
     (let parts = split_on CHR ''_'' (stem filename)
      in if length parts > 1 then parts ! 1 else default_station_name station_id)"

text \<open>
  What \<^verbatim>\<open>open\<close> and \<^verbatim>\<open>json.load\<close> make of a file: an exception of \<^verbatim>\<open>open\<close> or of
  decoding, a \<^verbatim>\<open>JSONDecodeError\<close>, or the parsed value.
\<close>

datatype file_content = Unreadable | Malformed | Parsed json

definition process_json_file ::
  "(json \<Rightarrow> string) \<Rightarrow> string \<Rightarrow> file_content \<Rightarrow> db \<Rightarrow> code_map \<Rightarrow> json \<Rightarrow> world \<Rightarrow>
   py_error + db" where
  "process_json_file repr filename content conn cm config w =
     (case parse_filename filename of
        None \<Rightarrow> Inr conn
      | Some station_id \<Rightarrow>
          (case content of
             Unreadable \<Rightarrow> Inl OSError
           | Malformed \<Rightarrow> Inr conn
           | Parsed data \<Rightarrow>
               (case parse_json_to_polars repr data cm station_id of
                  Inl e \<Rightarrow> Inl e
                | Inr (measurements_df, monitors_dict) \<Rightarrow>
                    if measurements_df = [] then Inr conn
                    else (case dict_get config ''report'' (JObj []) of
                            Inl e \<Rightarrow> Inl e
                          | Inr rep \<Rightarrow>
                              (case dict_get rep ''type'' (JStr ''Average'') of
                                 Inl e \<Rightarrow> Inl e
                               | Inr report_type \<Rightarrow>
                                   (case dict_get config ''time'' (JObj []) of
                                      Inl e \<Rightarrow> Inl e
                                    | Inr tm \<Rightarrow>
                                        (case dict_get tm ''granularity_minutes'' (JInt 60) of
                                           Inl e \<Rightarrow> Inl e
                                         | Inr granularity \<Rightarrow>
                                             Inr (insert_data_duckdb conn measurements_df
                                                    station_id
                                                    (station_name_of filename station_id)
                                                    monitors_dict report_type granularity
                                                    w))))))))"

section \<open>Code map loader and main\<close>









text \<open>The loop of \<^verbatim>\<open>main\<close> with its two counters; \<^verbatim>\<open>except Exception\<close> goes on.\<close>

fun process_files ::
  "(json \<Rightarrow> string) \<Rightarrow> (string \<Rightarrow> world) \<Rightarrow> code_map \<Rightarrow> json \<Rightarrow> (string \<times> file_content) list \<Rightarrow>
   db \<times> nat \<times> nat \<Rightarrow> db \<times> nat \<times> nat" where
  "process_files repr eng cm config [] st = st"
| "process_files repr eng cm config ((name, content) # fs) (conn, success_count, error_count) =
     (case process_json_file repr name content conn cm config (eng name) of
        Inr conn' \<Rightarrow> process_files repr eng cm config fs (conn', success_count + 1, error_count)
      | Inl e \<Rightarrow> process_files repr eng cm config fs (conn, success_count, error_count + 1))"


section \<open>Notions of the specification and sample inputs\<close>

text \<open>Every emitted reading names a monitor that is a key of the registry.\<close>

definition all_registered :: "reading list \<times> monitors_dict \<Rightarrow> bool" where
  "all_registered acc = list_all (\<lambda>r. map_of (snd acc) (r_monitor_code r) \<noteq> None) (fst acc)"

text \<open>The file of the end-to-end scenario: one measurement row and one summary row.\<close>

definition sample_file :: json where
  "sample_file =
     JArr [JObj [(''datetime'', JStr ''01-01-2024 08:00''), (''S_PM25'', JStr ''23.4'')],
           JObj [(''datetime'', JStr ''Summary''), (''S_PM25'', JStr ''Avg'')]]"

definition sample_reading :: reading where
  "sample_reading =
     \<lparr>r_station_id = 1, r_monitor_code = ''S_PM25'', r_timestamp = ''2024-01-01 08:00:00'',
      r_value = Some (Finite (117 / 5))\<rparr>"

definition sample_monitors :: monitors_dict where
  "sample_monitors =
     [(''S_PM25'', \<lparr>mi_code = ''S_PM25'', mi_name = JStr ''S_PM25'', mi_unit = JStr []\<rparr>)]"

text \<open>A store that already knows the monitor, and a later sighting with label and unit.\<close>

definition pm25_row :: monitor_row where
  "pm25_row = \<lparr>mon_id = 1, mon_code = ''S_PM25'', mon_name = JStr ''S_PM25'', mon_unit = JStr []\<rparr>"

definition pm25_info :: monitor_info where
  "pm25_info = \<lparr>mi_code = ''S_PM25'', mi_name = JStr ''PM2.5'', mi_unit = JStr ''ug/m3''\<rparr>"

definition one_monitor_db :: db where
  "one_monitor_db = empty_db\<lparr>monitors := [pm25_row], monitor_seq := 2\<rparr>"



text \<open>
  An engine that, of the rows of one statement with the same key, lets the first take
  effect.
\<close>

definition first_of_each_key :: "staged list \<Rightarrow> staged list" where
  "first_of_each_key rows =
     foldl (\<lambda>acc s. if sg_report_type s \<noteq> JNull \<and> staged_key s \<in> set (map staged_key acc)
                    then acc else acc @ [s]) [] rows"

text \<open>Two runs over the sample file, and a run whose \<^verbatim>\<open>INSERT\<close> the engine refuses.\<close>

definition first_run :: world where
  "first_run = \<lparr>py_now = 5, db_now = 6, insert_raises = False, seq_consumed = 0,
                 engine_keeps = first_of_each_key\<rparr>"


definition failing_run :: world where
  "failing_run = \<lparr>py_now = 5, db_now = 6, insert_raises = True, seq_consumed = 1,
                   engine_keeps = first_of_each_key\<rparr>"



text \<open>
  The timestamp text in the specification's words: two-digit day, dash, two-digit
  month, dash, four-digit year, space, two-digit hour, colon, two-digit minute, and
  nothing else.
\<close>

definition exact_datetime_text :: "string \<Rightarrow> bool" where
  "exact_datetime_text s =
     (length s = 16 \<and>
      list_all is_digit (take 2 s) \<and> s ! 2 = CHR ''-'' \<and>
      list_all is_digit (take 2 (drop 3 s)) \<and> s ! 5 = CHR ''-'' \<and>
      list_all is_digit (take 4 (drop 6 s)) \<and> s ! 10 = CHR '' '' \<and>
      list_all is_digit (take 2 (drop 11 s)) \<and> s ! 13 = CHR '':'' \<and>
      list_all is_digit (take 2 (drop 14 s)))"

text \<open>A well-formed timestamp followed by a line feed, as a JSON text may hold it.\<close>

definition newline_timestamp :: string where
  "newline_timestamp = ''15-03-2024 10:30'' @ [CHR 0x0A]"

text \<open>What one atom of a pattern accepts.\<close>

fun atom_ok :: "atom \<Rightarrow> char \<Rightarrow> bool" where
  "atom_ok Digit c = is_digit c"
| "atom_ok (Lit x) c = (c = x)"










text \<open>
  The number of a calendar day, counting from 1 January of the year 1: the following
  calendar day is the valid date whose number is one more.
\<close>

primrec days_before_month :: "nat \<Rightarrow> nat \<Rightarrow> nat" where
  "days_before_month y 0 = 0"
| "days_before_month y (Suc m) = (if m = 0 then 0 else days_before_month y m + days_in_month y m)"





section \<open>Properties\<close>

lemma match_atoms_length:
  "match_atoms as s = Some rest \<Longrightarrow> s = take (length as) s @ rest \<and> length as \<le> length s"
  by (induction as s rule: match_atoms.induct) (auto split: if_splits)


subsection \<open>Record extractor: emitted readings name registered monitors\<close>

lemma register_monitor_keys:
  "register_monitor cm mons k = Inr mons' \<Longrightarrow> fst ` set mons' = insert k (fst ` set mons)"
  by (auto simp: register_monitor_def map_of_eq_None_iff split: if_splits sum.splits)

lemma all_registered_step:
  assumes "all_registered (ms, mons)" and "register_monitor cm mons k = Inr mons'"
  shows "all_registered (ms @ [\<lparr>r_station_id = sid, r_monitor_code = k, r_timestamp = ts,
                                r_value = v\<rparr>], mons')"
  using assms(1) register_monitor_keys[OF assms(2)]
  by (auto simp: all_registered_def list_all_iff map_of_eq_None_iff)

lemma extract_fields_registered:
  "extract_fields cm sid ts items acc = Inr acc' \<Longrightarrow> all_registered acc \<Longrightarrow> all_registered acc'"
proof (induction cm sid ts items acc rule: extract_fields.induct)
  case (1 cm sid ts acc)
  then show ?case by simp
next
  case (2 cm sid ts key v items ms mons)
  show ?case
  proof (cases "startswith key ''S_'' \<and> key \<noteq> ''datetime''")
    case False
    with 2 show ?thesis by auto
  next
    case True
    from True "2.prems"(1) obtain mons1 v1 where
      reg: "register_monitor cm mons key = Inr mons1" and
      co: "coerce_value v = Inr v1" and
      rest: "extract_fields cm sid ts items
               (ms @ [\<lparr>r_station_id = sid, r_monitor_code = key, r_timestamp = ts, r_value = v1\<rparr>],
                mons1) = Inr acc'"
      by (auto split: sum.splits)
    from all_registered_step[OF "2.prems"(2) reg]
    show ?thesis
      by (rule "2.IH"(1)[OF True reg co rest])
  qed
qed

lemma extract_rows_registered:
  "extract_rows cm sid rows acc = Inr acc' \<Longrightarrow> all_registered acc \<Longrightarrow> all_registered acc'"
proof (induction rows arbitrary: acc)
  case Nil
  then show ?case by simp
next
  case (Cons row rows)
  from Cons.prems(1) obtain dv where dv: "dict_get row ''datetime'' (JStr []) = Inr dv"
    by (auto split: sum.splits)
  show ?case
  proof (cases "normalize_datetime dv")
    case None
    with Cons dv show ?thesis by simp
  next
    case (Some ts)
    show ?thesis
    proof (cases "ts = []")
      case True
      with Cons dv Some show ?thesis by simp
    next
      case False
      from Cons.prems(1) dv Some False obtain items acc1 where
        row: "row = JObj items" and
        f: "extract_fields cm sid ts items acc = Inr acc1" and
        r: "extract_rows cm sid rows acc1 = Inr acc'"
        by (auto split: json.splits sum.splits)
      from extract_fields_registered[OF f Cons.prems(2)] r show ?thesis
        by (rule Cons.IH[rotated])
    qed
  qed
qed

lemma sample_parse:
  "parse_json_to_polars (\<lambda>v. []) sample_file [] 1 = Inr ([sample_reading], sample_monitors)"
  by code_simp

text \<open>
  Claim C9. Whatever the JSON input, the code map and the station identifier, when the
  record extractor returns, every measurement tuple it emitted carries a monitor code
  that is a key of the monitor registry returned with it.
\<close>

theorem extractor_emits_registered_monitors:
  assumes "parse_json_to_polars repr json_data cm station_id = Inr (measurements_list, monitors_dict)"
  shows "list_all (\<lambda>r. map_of monitors_dict (r_monitor_code r) \<noteq> None) measurements_list"
proof -
  have start: "all_registered ([], [])"
    by (simp add: all_registered_def)
  show ?thesis
  proof (cases "locate_rows json_data")
    case None
    with assms show ?thesis by (simp add: parse_json_to_polars_def)
  next
    case (Some rows)
    with assms obtain valid_rows where
      "extract_rows cm station_id valid_rows ([], []) = Inr (measurements_list, monitors_dict)"
      by (auto simp: parse_json_to_polars_def split: sum.splits)
    from extract_rows_registered[OF this start] show ?thesis
      by (simp add: all_registered_def)
  qed
qed

theorem extractor_emits_registered_monitors_witness:
  "parse_json_to_polars (\<lambda>v. []) sample_file [] 1 = Inr ([sample_reading], sample_monitors) \<and>
   list_all (\<lambda>r. map_of sample_monitors (r_monitor_code r) \<noteq> None) [sample_reading]"
proof (rule conjI)
  show "parse_json_to_polars (\<lambda>v. []) sample_file [] 1 = Inr ([sample_reading], sample_monitors)"
    by (rule sample_parse)
  show "list_all (\<lambda>r. map_of sample_monitors (r_monitor_code r) \<noteq> None) [sample_reading]"
    by (rule extractor_emits_registered_monitors[OF sample_parse])
qed

subsection \<open>Persistence layer: the monitor upsert\<close>

lemma one_monitor_db_has_code:
  "list_ex (\<lambda>r. mon_code r = mi_code pm25_info) (monitors one_monitor_db)"
  by (simp add: one_monitor_db_def pm25_row_def pm25_info_def empty_db_def)

text \<open>
  Claim C10. For a monitor whose code is already in the monitors table, the upsert
  leaves the surrogate identifier and the code of every row as they were (the rows stay
  in place), overwrites name and unit of the rows with that code and nothing else, and
  still advances the sequence by one; stations and measurements are untouched.
\<close>

theorem monitor_upsert_overwrites_name_and_unit_only:
  assumes "list_ex (\<lambda>r. mon_code r = mi_code minfo) (monitors conn)"
  shows "map mon_id (monitors (upsert_monitor conn minfo)) = map mon_id (monitors conn) \<and>
         map mon_code (monitors (upsert_monitor conn minfo)) = map mon_code (monitors conn) \<and>
         monitors (upsert_monitor conn minfo) =
           map (\<lambda>r. if mon_code r = mi_code minfo
                    then r\<lparr>mon_name := mi_name minfo, mon_unit := mi_unit minfo\<rparr> else r)
               (monitors conn) \<and>
         monitor_seq (upsert_monitor conn minfo) = monitor_seq conn + 1 \<and>
         stations (upsert_monitor conn minfo) = stations conn \<and>
         measurements (upsert_monitor conn minfo) = measurements conn"
proof -
  have m: "monitors (upsert_monitor conn minfo) =
           map (\<lambda>r. if mon_code r = mi_code minfo
                    then r\<lparr>mon_name := mi_name minfo, mon_unit := mi_unit minfo\<rparr> else r)
               (monitors conn)"
    using assms by (simp add: upsert_monitor_def)
  have ids: "map mon_id (monitors (upsert_monitor conn minfo)) = map mon_id (monitors conn)"
    unfolding m by (induction "monitors conn") auto
  have codes: "map mon_code (monitors (upsert_monitor conn minfo)) = map mon_code (monitors conn)"
    unfolding m by (induction "monitors conn") auto
  have rest: "monitor_seq (upsert_monitor conn minfo) = monitor_seq conn + 1 \<and>
         stations (upsert_monitor conn minfo) = stations conn \<and>
         measurements (upsert_monitor conn minfo) = measurements conn"
    by (simp add: upsert_monitor_def)
  from ids codes m rest show ?thesis by blast
qed

theorem monitor_upsert_overwrites_name_and_unit_only_witness:
  "list_ex (\<lambda>r. mon_code r = mi_code pm25_info) (monitors one_monitor_db) \<and>
   map mon_id (monitors (upsert_monitor one_monitor_db pm25_info)) = [1] \<and>
   map mon_code (monitors (upsert_monitor one_monitor_db pm25_info)) = [''S_PM25''] \<and>
   map mon_name (monitors (upsert_monitor one_monitor_db pm25_info)) = [JStr ''PM2.5''] \<and>
   map mon_unit (monitors (upsert_monitor one_monitor_db pm25_info)) = [JStr ''ug/m3''] \<and>
   monitor_seq (upsert_monitor one_monitor_db pm25_info) = 3"
  using monitor_upsert_overwrites_name_and_unit_only[OF one_monitor_db_has_code]
    one_monitor_db_has_code
  by (simp add: one_monitor_db_def pm25_row_def pm25_info_def empty_db_def)

subsection \<open>Value coercion\<close>

lemmas float_defs = float_of_text_def strip_def is_space_def parse_sign_def to_lower_def
  parse_number_def digitpart_def is_digit_def parse_exponent_def decimal_value_def
  int_of_digits_def digit_val_def

lemma float_12_5: "float_of_text ''12.5'' = Some (Finite (25 / 2))"
  by (simp add: float_defs)

lemma float_abc: "float_of_text ''abc'' = None"
  by (simp add: float_defs)

text \<open>
  Claim C8. The value of a monitor-coded field coerces to null for each of the tokens
  None, the empty text, "-", "----", "N/A" and "NaN"; "12.5" coerces to the number
  12.5; "abc" coerces to null; and for every text the coercion returns without an
  error: null for a missing-value token and for text \<^verbatim>\<open>float\<close> cannot parse, the parsed
  number otherwise.
\<close>

theorem value_coercion:
  "list_all (\<lambda>v. coerce_value v = Inr None) missing_tokens \<and>
   missing_tokens = [JNull, JStr [], JStr ''-'', JStr ''----'', JStr ''N/A'', JStr ''NaN''] \<and>
   coerce_value (JStr ''12.5'') = Inr (Some (Finite (25 / 2))) \<and>
   coerce_value (JStr ''abc'') = Inr None \<and>
   (\<forall>s. coerce_value (JStr s) =
      (if JStr s \<in> set missing_tokens then Inr None
       else case float_of_text s of None \<Rightarrow> Inr None | Some f \<Rightarrow> Inr (Some f)))"
proof -
  have a: "list_all (\<lambda>v. coerce_value v = Inr None) missing_tokens"
    by (simp add: coerce_value_def list_all_iff)
  have b: "coerce_value (JStr ''12.5'') = Inr (Some (Finite (25 / 2)))"
    by (simp add: coerce_value_def missing_tokens_def py_float_def float_12_5)
  have c: "coerce_value (JStr ''abc'') = Inr None"
    by (simp add: coerce_value_def missing_tokens_def py_float_def float_abc)
  have d: "\<forall>s. coerce_value (JStr s) =
      (if JStr s \<in> set missing_tokens then Inr None
       else case float_of_text s of None \<Rightarrow> Inr None | Some f \<Rightarrow> Inr (Some f))"
    by (simp add: coerce_value_def py_float_def split: option.splits)
  from a b c d show ?thesis by (simp add: missing_tokens_def)
qed

theorem value_coercion_witness:
  "coerce_value (JStr ''abc'') = Inr None \<and>
   coerce_value (JStr ''12.5'') = Inr (Some (Finite (25 / 2)))"
  using value_coercion by blast


subsection \<open>Persistence layer: re-ingestion\<close>










lemma measurements_upsert_station [simp]:
  "measurements (upsert_station sid name now conn) = measurements conn"
  by (simp add: upsert_station_def)

lemma measurements_upsert_monitors [simp]:
  "measurements (foldl upsert_monitor conn infos) = measurements conn"
  by (induction infos arbitrary: conn) (simp_all add: upsert_monitor_def)

lemma measurements_register [simp]: "measurements (register n rows conn) = measurements conn"
  by (simp add: register_def)

lemma measurements_unregister [simp]: "measurements (unregister n conn) = measurements conn"
  by (simp add: unregister_def)

lemma view_after_register [simp]: "map_of (views (register n rows conn)) n = Some rows"
  by (simp add: register_def)















subsection \<open>Row classifier: what the pattern accepts\<close>

lemma match_atoms_iff:
  "match_atoms as s = Some rest \<longleftrightarrow>
     length as \<le> length s \<and> rest = drop (length as) s \<and> list_all2 atom_ok as (take (length as) s)"
  by (induction as s rule: match_atoms.induct) auto

lemma match_atoms_None_iff:
  "match_atoms as s = None \<longleftrightarrow>
     \<not> (length as \<le> length s \<and> list_all2 atom_ok as (take (length as) s))"
  by (induction as s rule: match_atoms.induct) auto

lemma sixteen_chars:
  assumes "length s = 16"
  obtains c0 c1 c2 c3 c4 c5 c6 c7 c8 c9 c10 c11 c12 c13 c14 c15 :: char
  where "s = [c0, c1, c2, c3, c4, c5, c6, c7, c8, c9, c10, c11, c12, c13, c14, c15]"
  using assms by (auto simp: numeral_eq_Suc length_Suc_conv)

lemma exact_iff_atoms:
  "exact_datetime_text s \<longleftrightarrow> length s = 16 \<and> list_all2 atom_ok datetime_atoms s"
proof (cases "length s = 16")
  case False
  then show ?thesis by (simp add: exact_datetime_text_def)
next
  case True
  then obtain c0 c1 c2 c3 c4 c5 c6 c7 c8 c9 c10 c11 c12 c13 c14 c15
    where s: "s = [c0, c1, c2, c3, c4, c5, c6, c7, c8, c9, c10, c11, c12, c13, c14, c15]"
    by (rule sixteen_chars)
  show ?thesis
    unfolding s by (auto simp: exact_datetime_text_def datetime_atoms_def)
qed

lemma re_match_datetime_None_iff:
  "re_match_datetime s = None \<longleftrightarrow>
     \<not> (exact_datetime_text s \<or> (\<exists>t. s = t @ [CHR 0x0A] \<and> exact_datetime_text t))"
proof -
  have len: "length datetime_atoms = 16"
    by (simp add: datetime_atoms_def)
  have m: "re_match_datetime s = None \<longleftrightarrow>
      \<not> (16 \<le> length s \<and> list_all2 atom_ok datetime_atoms (take 16 s) \<and> dollar (drop 16 s))"
  proof (cases "match_atoms datetime_atoms s")
    case None
    then show ?thesis
      using match_atoms_None_iff[of datetime_atoms s] by (auto simp: re_match_datetime_def len)
  next
    case (Some rest)
    then show ?thesis
      using match_atoms_iff[of datetime_atoms s rest] by (auto simp: re_match_datetime_def len)
  qed
  have "(16 \<le> length s \<and> list_all2 atom_ok datetime_atoms (take 16 s) \<and> dollar (drop 16 s)) \<longleftrightarrow>
        (exact_datetime_text s \<or> (\<exists>t. s = t @ [CHR 0x0A] \<and> exact_datetime_text t))"
  proof
    assume "16 \<le> length s \<and> list_all2 atom_ok datetime_atoms (take 16 s) \<and> dollar (drop 16 s)"
    then have a: "16 \<le> length s" "list_all2 atom_ok datetime_atoms (take 16 s)"
      and d: "dollar (drop 16 s)" by simp_all
    from a have e: "exact_datetime_text (take 16 s)"
      by (simp add: exact_iff_atoms)
    from d show "exact_datetime_text s \<or> (\<exists>t. s = t @ [CHR 0x0A] \<and> exact_datetime_text t)"
      unfolding dollar_def
    proof
      assume "drop 16 s = []"
      with a(1) have "take 16 s = s" by simp
      with e show ?thesis by simp
    next
      assume "drop 16 s = [CHR 0x0A]"
      then have "s = take 16 s @ [CHR 0x0A]"
        by (metis append_take_drop_id)
      with e show ?thesis by blast
    qed
  next
    assume "exact_datetime_text s \<or> (\<exists>t. s = t @ [CHR 0x0A] \<and> exact_datetime_text t)"
    then show "16 \<le> length s \<and> list_all2 atom_ok datetime_atoms (take 16 s) \<and> dollar (drop 16 s)"
    proof
      assume "exact_datetime_text s"
      then show ?thesis by (simp add: exact_iff_atoms dollar_def)
    next
      assume "\<exists>t. s = t @ [CHR 0x0A] \<and> exact_datetime_text t"
      then obtain t where "s = t @ [CHR 0x0A]" "exact_datetime_text t" by blast
      then show ?thesis by (simp add: exact_iff_atoms dollar_def)
    qed
  qed
  with m show ?thesis by simp
qed

lemma startswith_iff: "startswith s p \<longleftrightarrow> (\<exists>q. s = p @ q)"
  by (induction s p rule: startswith.induct) auto

lemma py_in_iff: "py_in k s \<longleftrightarrow> (\<exists>p q. s = p @ k @ q)"
proof (induction s)
  case Nil
  then show ?case by auto
next
  case (Cons c cs)
  show ?case
  proof
    assume "py_in k (c # cs)"
    then consider "startswith (c # cs) k" | "py_in k cs" by auto
    then show "\<exists>p q. c # cs = p @ k @ q"
    proof cases
      case 1
      then obtain q where "c # cs = k @ q" by (auto simp: startswith_iff)
      then have "c # cs = [] @ k @ q" by simp
      then show ?thesis by blast
    next
      case 2
      with Cons obtain p q where "cs = p @ k @ q" by blast
      then have "c # cs = (c # p) @ k @ q" by simp
      then show ?thesis by blast
    qed
  next
    assume "\<exists>p q. c # cs = p @ k @ q"
    then obtain p q where pq: "c # cs = p @ k @ q" by blast
    show "py_in k (c # cs)"
    proof (cases p)
      case Nil
      with pq have "startswith (c # cs) k" by (auto simp: startswith_iff)
      then show ?thesis by simp
    next
      case (Cons a p')
      with pq have "cs = p' @ k @ q" by simp
      with Cons.IH have "py_in k cs" by blast
      then show ?thesis by simp
    qed
  qed
qed

lemma classifier_characterised:
  assumes "dtxt = py_str repr (case map_of kvs ''datetime'' of None \<Rightarrow> JStr [] | Some v \<Rightarrow> v)"
  shows "is_valid_measurement_row repr (JObj kvs) =
     Inr (\<not> list_ex (\<lambda>keyword. \<exists>p q. dtxt = p @ keyword @ q) summary_keywords \<and>
          (exact_datetime_text dtxt \<or> (\<exists>t. dtxt = t @ [CHR 0x0A] \<and> exact_datetime_text t)))"
  unfolding assms
  by (simp add: is_valid_measurement_row_def re_match_datetime_None_iff py_in_iff)

text \<open>
  Claim C7 on the code. The classifier accepts a row iff its timestamp text holds no
  summary keyword and is of the exact form, or of the exact form followed by one line
  feed (\<open>classifier_characterised\<close>). So the row whose timestamp is a well-formed
  timestamp followed by a line feed is accepted, although its text is not of the exact
  form and holds no summary keyword.
\<close>

theorem newline_row_is_accepted:
  "is_valid_measurement_row (\<lambda>v. []) (JObj [(''datetime'', JStr newline_timestamp)]) = Inr True \<and>
   \<not> exact_datetime_text newline_timestamp \<and>
   \<not> list_ex (\<lambda>keyword. py_in keyword newline_timestamp) summary_keywords"
  by code_simp


subsection \<open>Datetime normalizer: texts outside the exact form\<close>

lemma normalize_examples:
  "normalize_datetime (JStr ''2024-03-15 10:00'') = None"
  "normalize_datetime (JStr ''15-03-2024 10:00:00'') = None"
  "normalize_datetime (JStr ''29-02-2023 10:00'') = None"
  "normalize_datetime (JStr ''15-03-2024 24:00'') = normalize_datetime (JStr ''16-03-2024 00:00'')"
  "normalize_datetime JNull = None"
  by code_simp+

text \<open>
  Claim C3 on the code. Texts that the pattern rejects and dates outside the calendar
  give \<open>None\<close> (\<open>normalize_examples\<close>), and no exception leaves the function; but
  for a well-formed timestamp followed by a line feed, which is not of the exact form,
  the normalizer returns a timestamp.
\<close>

theorem newline_timestamp_is_normalized:
  "normalize_datetime (JStr newline_timestamp) = Some ''2024-03-15 10:30:00'' \<and>
   \<not> exact_datetime_text newline_timestamp"
  by code_simp


subsection \<open>Station display name\<close>

lemma split_on_nonempty: "split_on sep s \<noteq> []"
  by (induction s) (auto split: list.splits)

lemma length_split_on: "length (split_on sep s) = Suc (length (filter (\<lambda>c. c = sep) s))"
  by (induction s) (auto split: list.splits simp: split_on_nonempty)

lemma length_takeWhile_lt: "x \<in> set xs \<Longrightarrow> \<not> P x \<Longrightarrow> length (takeWhile P xs) < length xs"
  by (induction xs) auto

lemma rfind_Some:
  assumes "rfind c s = Some i"
  shows "i < length s \<and> s ! i = c"
proof -
  from assms have mem: "c \<in> set (rev s)"
    and i: "i = length s - 1 - length (takeWhile (\<lambda>x. x \<noteq> c) (rev s))"
    by (auto simp: rfind_def split: if_splits)
  define n where "n = length (takeWhile (\<lambda>x. x \<noteq> c) (rev s))"
  have n: "n < length (rev s)"
    unfolding n_def using mem by (rule length_takeWhile_lt) simp
  have "\<not> (rev s ! n \<noteq> c)"
    unfolding n_def using n[unfolded n_def] by (rule nth_length_takeWhile)
  then have "rev s ! n = c" by simp
  moreover have "rev s ! n = s ! (length s - Suc n)"
    using n by (simp add: rev_nth)
  ultimately show ?thesis
    using n i by (simp add: n_def)
qed

lemma re_match_station_shape:
  assumes "re_match_station f = Some ds"
  shows "ds \<noteq> [] \<and> list_all is_digit ds \<and> (\<exists>rest. f = ds @ CHR ''_'' # rest)"
proof -
  from assms have ds: "ds = takeWhile is_digit f" and ne: "ds \<noteq> []"
    and sw: "startswith (dropWhile is_digit f) ''_''"
    by (auto simp: re_match_station_def Let_def split: if_splits)
  from sw obtain rest where "dropWhile is_digit f = CHR ''_'' # rest"
    by (cases "dropWhile is_digit f") auto
  then have "f = ds @ CHR ''_'' # rest"
    unfolding ds by (metis takeWhile_dropWhile_id)
  moreover have "list_all is_digit ds"
    unfolding ds by (simp add: list_all_iff) (meson set_takeWhileD)
  ultimately show ?thesis using ne by blast
qed

lemma dot_is_no_digit: "\<not> is_digit CHR ''.''"
  by (simp add: is_digit_def)

lemma stem_keeps_underscore:
  assumes f: "f = ds @ CHR ''_'' # rest" and digits: "list_all is_digit ds"
  shows "CHR ''_'' \<in> set (stem f)"
proof (cases "rfind CHR ''.'' f")
  case None
  have "CHR ''_'' \<in> set f"
    unfolding f by simp
  with None show ?thesis
    unfolding stem_def by simp
next
  case (Some i)
  from rfind_Some[OF Some] have i: "i < length f" and dot: "f ! i = CHR ''.''"
    by simp_all
  have "length ds < i"
  proof (rule ccontr)
    assume "\<not> length ds < i"
    then consider "i = length ds" | "i < length ds" by linarith
    then show False
    proof cases
      case 1
      have "f ! length ds = CHR ''_''"
        unfolding f by simp
      with 1 dot show False by simp
    next
      case 2
      then have "f ! i = ds ! i"
        unfolding f by (simp add: nth_append)
      moreover from 2 have "ds ! i \<in> set ds"
        by (rule nth_mem)
      ultimately have "is_digit (f ! i)"
        using digits by (simp add: list_all_iff)
      with dot dot_is_no_digit show False by simp
    qed
  qed
  then obtain k where k: "i = length ds + Suc k"
    by (metis less_iff_Suc_add add_Suc_right)
  have a: "CHR ''_'' \<in> set (take i f)"
    unfolding f k by simp
  have b: "CHR ''_'' \<in> set f"
    unfolding f by simp
  from a b Some show ?thesis
    unfolding stem_def by auto
qed

lemma default_station_name_unreachable:
  assumes "parse_filename f = Some sid"
  shows "length (split_on CHR ''_'' (stem f)) > 1 \<and>
         station_name_of f sid = split_on CHR ''_'' (stem f) ! 1"
proof -
  from assms obtain ds where "re_match_station f = Some ds"
    by (auto simp: parse_filename_def split: option.splits)
  from re_match_station_shape[OF this] obtain rest where
    "f = ds @ CHR ''_'' # rest" "list_all is_digit ds" by blast
  then have "CHR ''_'' \<in> set (stem f)" by (rule stem_keeps_underscore)
  then have "filter (\<lambda>c. c = CHR ''_'') (stem f) \<noteq> []"
    by (auto simp: filter_empty_conv)
  then have "length (split_on CHR ''_'' (stem f)) > 1"
    unfolding length_split_on by (cases "filter (\<lambda>c. c = CHR ''_'') (stem f)") auto
  then show ?thesis
    by (simp add: station_name_of_def Let_def)
qed

text \<open>
  Claim C5 on the code. Whenever a station identifier is found, the stem has at least
  two parts, so the default label is never used (\<open>default_station_name_unreachable\<close>):
  for the file name \<^verbatim>\<open>12_.json\<close>, with nothing after the prefix, the display name is
  the empty text and not the default label; and of a name with underscores only the
  part up to the next underscore is taken.
\<close>

theorem empty_station_name_is_not_defaulted:
  "parse_filename ''12_.json'' = Some 12 \<and>
   station_name_of ''12_.json'' 12 = [] \<and>
   default_station_name 12 = ''Estaci'' @ [CHR 0xC3, CHR 0xB3] @ ''n 12'' \<and>
   station_name_of ''5_San_Cristobal.json'' 5 = ''San''"
  by code_simp


subsection \<open>The transient view\<close>

lemma insert_failure_leaves_view:
  assumes "insert_raises w" and "df \<noteq> []"
  shows "registered ''temp_measurements'' (insert_data_duckdb conn df sid name mons rt g w)"
  using assms
  by (simp add: insert_data_duckdb_def Let_def execute_insert_measurements_def registered_def)

lemma registered_foldl_upsert [simp]:
  "views (foldl upsert_measurement conn rows) = views conn"
  by (induction rows arbitrary: conn) (simp_all add: upsert_measurement_def)

lemma insert_success_releases_view:
  assumes "\<not> insert_raises w" and "df \<noteq> []"
  shows "\<not> registered ''temp_measurements'' (insert_data_duckdb conn df sid name mons rt g w)"
proof -
  have "map_of (filter (\<lambda>v. fst v \<noteq> n) vs) n = None" for n :: string and vs :: "(string \<times> staged list) list"
    by (induction vs) auto
  with assms show ?thesis
    by (simp add: insert_data_duckdb_def Let_def execute_insert_measurements_def registered_def
        unregister_def)
qed

text \<open>
  Claim C6 on the code. When the \<^verbatim>\<open>INSERT\<close> into measurements raises, the insert
  operation returns with the view \<^verbatim>\<open>temp_measurements\<close> still registered
  (\<open>insert_failure_leaves_view\<close>); it is released only when the statement succeeds.
\<close>

theorem failed_insert_leaves_view_registered:
  "registered ''temp_measurements''
     (insert_data_duckdb empty_db [sample_reading] 1 ''CentroTest'' sample_monitors
        (JStr ''Average'') (JInt 60) failing_run) \<and>
   \<not> registered ''temp_measurements''
     (insert_data_duckdb empty_db [sample_reading] 1 ''CentroTest'' sample_monitors
        (JStr ''Average'') (JInt 60) first_run)"
proof (rule conjI)
  show "registered ''temp_measurements''
     (insert_data_duckdb empty_db [sample_reading] 1 ''CentroTest'' sample_monitors
        (JStr ''Average'') (JInt 60) failing_run)"
    by (rule insert_failure_leaves_view) (simp_all add: failing_run_def)
  show "\<not> registered ''temp_measurements''
     (insert_data_duckdb empty_db [sample_reading] 1 ''CentroTest'' sample_monitors
        (JStr ''Average'') (JInt 60) first_run)"
    by (rule insert_success_releases_view) (simp_all add: first_run_def)
qed

subsection \<open>Exit status of the run\<close>

lemma process_files_counts:
  "snd (process_files repr eng cm config fs (conn, s, e)) = (s', e') \<Longrightarrow>
   s' + e' = s + e + length fs \<and> s \<le> s' \<and> e \<le> e'"
proof (induction fs arbitrary: conn s e)
  case Nil
  then show ?case by simp
next
  case (Cons f fs)
  obtain name content where f: "f = (name, content)" by (cases f)
  show ?case
  proof (cases "process_json_file repr name content conn cm config (eng name)")
    case (Inl ex)
    with Cons.prems f
    have "snd (process_files repr eng cm config fs (conn, s, e + 1)) = (s', e')" by simp
    from Cons.IH[OF this] show ?thesis by simp
  next
    case (Inr conn')
    with Cons.prems f
    have "snd (process_files repr eng cm config fs (conn', s + 1, e)) = (s', e')" by simp
    from Cons.IH[OF this] show ?thesis by simp
  qed
qed





subsection \<open>Datetime normalizer: texts of the exact form\<close>




lemma digit_char_is_digit: "k < 10 \<Longrightarrow> is_digit (digit_char k) \<and> digit_val (digit_char k) = k"
proof -
  assume "k < 10"
  then have "k \<in> {0, 1, 2, 3, 4, 5, 6, 7, 8, 9}" by auto
  then show ?thesis
    by (auto simp: is_digit_def digit_char_def digit_val_def)
qed










lemma pad_is_digit:
  "list_all is_digit (pad2 n)" "list_all is_digit (pad4 n)"
  by (simp_all add: pad2_def pad4_def digit_char_is_digit)



lemma days_before_month_Suc:
  "1 \<le> m \<Longrightarrow> days_before_month y (Suc m) = days_before_month y m + days_in_month y m"
  by simp













end
